theory Spec2Isabelle
  imports Complex_Main "HOL-Library.Sublist"
begin

section \<open>Shared JavaScript values\<close>

text \<open>
  A thrown value is an \<open>Error\<close> object: its \<open>name\<close> and its \<open>message\<close>.
  \<open>new Error(m)\<close> has the name \<open>Error\<close>.
\<close>

datatype js_error = JsError (err_name: string) (err_message: string)

definition mkError :: "string \<Rightarrow> js_error" where
  "mkError m = JsError ''Error'' m"

text \<open>
  Truthiness of an optional string (\<open>undefined\<close>, \<open>null\<close> and the empty string are
  falsy), and \<open>a || b\<close> on such a value.
\<close>

definition truthy :: "string option \<Rightarrow> bool" where
  "truthy v = (case v of None \<Rightarrow> False | Some s \<Rightarrow> s \<noteq> [])"

definition or_default :: "string option \<Rightarrow> string \<Rightarrow> string" where
  "or_default v d = (case v of None \<Rightarrow> d | Some s \<Rightarrow> if s = [] then d else s)"

text \<open>
  \<open>Array.prototype.join\<close>: the result starts empty; before every element but the
  first the separator is appended, then the element.
\<close>

fun join_from :: "string \<Rightarrow> string \<Rightarrow> nat \<Rightarrow> string list \<Rightarrow> string" where
  "join_from sep R k [] = R"
| "join_from sep R k (x # xs) = join_from sep ((if 0 < k then R @ sep else R) @ x) (Suc k) xs"

definition join :: "string \<Rightarrow> string list \<Rightarrow> string" where
  "join sep xs = join_from sep [] 0 xs"

section \<open>Text extraction (lib/aws/textract)\<close>

text \<open>The two fields of a Textract \<open>Block\<close> that the code reads; both are optional.\<close>

record block =
  BlockType :: "string option"
  Text :: "string option"

text \<open>The response of \<open>GetDocumentTextDetectionCommand\<close>, with the fields the code reads.\<close>

record detection_response =
  JobStatus :: "string option"
  Blocks :: "block list option"
  NextToken :: "string option"

text \<open>
  The world outside \<open>processDocument\<close>: the bucket name of the process environment, the
  outcome of sending \<open>StartDocumentTextDetectionCommand\<close> (a thrown error, or the
  response's optional \<open>JobId\<close>), the successive readings of \<open>Date.now()\<close>, and the
  successive outcomes of sending \<open>GetDocumentTextDetectionCommand\<close>, in the order the
  code sends them.
\<close>

record textract_env =
  bucket :: "string option"
  startResult :: "js_error + string option"
  clock :: "int list"
  remote :: "(js_error + detection_response) list"

definition startTextExtraction :: "string \<Rightarrow> textract_env \<Rightarrow> js_error + string" where
  "startTextExtraction s3Key env =
     (case (if \<not> truthy (bucket env)
            then Inl (mkError ''AWS_S3_BUCKET_NAME environment variable is not set'')
            else case startResult env of
                   Inl e \<Rightarrow> Inl e
                 | Inr None \<Rightarrow>
                     Inl (mkError ''No JobId returned from StartDocumentTextDetection'')
                 | Inr (Some jobId) \<Rightarrow>
                     if jobId = []
                     then Inl (mkError ''No JobId returned from StartDocumentTextDetection'')
                     else Inr jobId) of
        Inr jobId \<Rightarrow> Inr jobId
      | Inl error \<Rightarrow>
          if err_name error = ''ThrottlingException''
          then Inl (mkError ''AWS Textract is throttled. Please try again later.'')
          else if err_name error = ''DocumentTooLargeException''
          then Inl (mkError ''PDF document is too large for Textract processing.'')
          else if err_name error = ''InvalidS3ObjectException''
          then Inl (mkError ''Invalid S3 object. Please check the bucket and key.'')
          else Inl (mkError (''Failed to start text extraction: '' @ err_message error)))"

text \<open>
  \<open>getTextExtractionStatus\<close> applied to the outcome of its \<open>client.send\<close>: the status
  (\<open>UNKNOWN\<close> when the response has none), the blocks and the next token.
\<close>

definition getTextExtractionStatus ::
  "js_error + detection_response \<Rightarrow> js_error + (string \<times> block list option \<times> string option)" where
  "getTextExtractionStatus sent =
     (case sent of
        Inr response \<Rightarrow>
          Inr (or_default (JobStatus response) ''UNKNOWN'', Blocks response, NextToken response)
      | Inl error \<Rightarrow>
          Inl (mkError (''Failed to get text extraction status: '' @ err_message error)))"

definition extractTextFromBlocks :: "block list option \<Rightarrow> string" where
  "extractTextFromBlocks blocks =
     (case blocks of
        None \<Rightarrow> []
      | Some bs \<Rightarrow>
          join ''\<newline>''
            (map (\<lambda>block. or_default (Text block) [])
               (filter (\<lambda>block. BlockType block = Some ''LINE'') bs)))"

definition maxBackoffMs :: rat where
  "maxBackoffMs = 30000"

definition timeoutMs :: int where
  "timeoutMs = 5 * 60 * 1000"

definition concat_blocks :: "block list \<Rightarrow> block list option \<Rightarrow> block list" where
  "concat_blocks allBlocks blocks = (case blocks of None \<Rightarrow> allBlocks | Some bs \<Rightarrow> allBlocks @ bs)"

text \<open>
  The inner loop \<open>while (nextToken)\<close>: every pass sends one more command and consumes
  the next scripted outcome. \<open>None\<close> means that the script ended before the loop did.
\<close>

fun fetchPages ::
  "string option \<Rightarrow> block list \<Rightarrow> (js_error + detection_response) list
     \<Rightarrow> (js_error + block list \<times> (js_error + detection_response) list) option" where
  "fetchPages nextToken allBlocks [] =
     (if truthy nextToken then None else Some (Inr (allBlocks, [])))"
| "fetchPages nextToken allBlocks (sent # rest) =
     (if truthy nextToken
      then (case sent of
              Inl error \<Rightarrow> Some (Inl error)
            | Inr response \<Rightarrow>
                fetchPages (NextToken response) (concat_blocks allBlocks (Blocks response)) rest)
      else Some (Inr (allBlocks, sent # rest)))"

text \<open>
  The outer loop \<open>while (status === "IN_PROGRESS")\<close>. The arguments are the local
  variables; the result is the list of delays passed to \<open>setTimeout\<close>, in order (the
  delay of this pass, then those of the passes that follow), and the way the loop ended: a
  thrown error, or the final status with the accumulated blocks (\<open>None\<close> when a script
  ended first).
\<close>

fun pollLoop ::
  "int \<Rightarrow> string \<Rightarrow> block list \<Rightarrow> rat \<Rightarrow> nat \<Rightarrow> int list
     \<Rightarrow> (js_error + detection_response) list
     \<Rightarrow> rat list \<times> (js_error + string \<times> block list) option" where
  "pollLoop startTime status allBlocks backoffMs pollCount [] rem =
     (if status = ''IN_PROGRESS'' then ([], None) else ([], Some (Inr (status, allBlocks))))"
| "pollLoop startTime status allBlocks backoffMs pollCount (now # clk) rem =
     (if status = ''IN_PROGRESS''
      then if now - startTime > timeoutMs
           then ([], Some (Inl (mkError
                  ''Text extraction timed out after 5 minutes. Document may be too large.'')))
           else (case rem of
                   [] \<Rightarrow> ([backoffMs], None)
                 | sent # rest \<Rightarrow>
                     (case getTextExtractionStatus sent of
                        Inl error \<Rightarrow> ([backoffMs], Some (Inl error))
                      | Inr (status', blocks, nextToken) \<Rightarrow>
                          (case fetchPages nextToken (concat_blocks allBlocks blocks) rest of
                             None \<Rightarrow> ([backoffMs], None)
                           | Some (Inl error) \<Rightarrow> ([backoffMs], Some (Inl error))
                           | Some (Inr (allBlocks', rest')) \<Rightarrow>
                               (case pollLoop startTime status' allBlocks'
                                       (min (backoffMs * 1.5) maxBackoffMs) (Suc pollCount)
                                       clk rest' of
                                  (waits, outcome) \<Rightarrow> (backoffMs # waits, outcome)))))
      else ([], Some (Inr (status, allBlocks))))"

definition processDocument ::
  "string \<Rightarrow> textract_env \<Rightarrow> rat list \<times> (js_error + string) option" where
  "processDocument s3Key env =
     (let failed = (\<lambda>error. Inl (mkError (''Failed to process document: '' @ err_message error)))
      in case startTextExtraction s3Key env of
           Inl error \<Rightarrow> ([], Some (failed error))
         | Inr jobId \<Rightarrow>
             (case clock env of
                [] \<Rightarrow> ([], None)
              | startTime # clk \<Rightarrow>
                  (case pollLoop startTime ''IN_PROGRESS'' [] 2000 0 clk (remote env) of
                     (waits, None) \<Rightarrow> (waits, None)
                   | (waits, Some (Inl error)) \<Rightarrow> (waits, Some (failed error))
                   | (waits, Some (Inr (status, allBlocks))) \<Rightarrow>
                       if status = ''FAILED''
                       then (waits, Some (failed (mkError
                              ''Textract job failed. Please check the PDF and try again.'')))
                       else (waits, Some (Inr (extractTextFromBlocks (Some allBlocks)))))))"

section \<open>Metadata store (lib/storage/mongodb-metadata)\<close>

datatype pdf_status = Processing | Completed | Failed

record PDFMetadata =
  pdf_id :: string
  filename :: string
  extractedText :: string
  uploadedAt :: string
  textractJobId :: "string option"
  status :: pdf_status

text \<open>\<open>Partial<PDFMetadata>\<close>: every field may be absent.\<close>

record PDFMetadataPartial =
  upd_id :: "string option"
  upd_filename :: "string option"
  upd_extractedText :: "string option"
  upd_uploadedAt :: "string option"
  upd_textractJobId :: "string option"
  upd_status :: "pdf_status option"

text \<open>
  Every invocation of an operation of the store is recorded, so that a handler that answers
  without reaching the store can be told from one that does.
\<close>

datatype store_call = SearchMetadataCall string | UpdatePDFMetadataCall string

text \<open>
  The \<open>pdf_metadata\<close> collection and the server behind it: the documents in their natural
  order, an error that every call throws while the server cannot be reached, and the two
  query operators the code uses on \<open>extractedText\<close>. \<open>textSearch q\<close> is \<open>$text\<close> with
  \<open>$search: q\<close>, \<open>regexSearch q\<close> is \<open>$regex: q\<close> with \<open>$options: "i"\<close>; each either
  throws or decides which texts match.
\<close>

record mongo =
  documents :: "PDFMetadata list"
  unavailable :: "js_error option"
  textSearch :: "string \<Rightarrow> js_error + (string \<Rightarrow> bool)"
  regexSearch :: "string \<Rightarrow> js_error + (string \<Rightarrow> bool)"
  calls :: "store_call list"

text \<open>The projection that every read applies to a stored document.\<close>

definition toPDFMetadata :: "PDFMetadata \<Rightarrow> PDFMetadata" where
  "toPDFMetadata doc =
     \<lparr>pdf_id = pdf_id doc, filename = filename doc, extractedText = extractedText doc,
      uploadedAt = uploadedAt doc, textractJobId = textractJobId doc, status = status doc\<rparr>"

text \<open>The update operator \<open>$set\<close>: every field present in the operand is overwritten.\<close>

definition set_fields :: "PDFMetadataPartial \<Rightarrow> PDFMetadata \<Rightarrow> PDFMetadata" where
  "set_fields u doc =
     \<lparr>pdf_id = (case upd_id u of None \<Rightarrow> pdf_id doc | Some v \<Rightarrow> v),
      filename = (case upd_filename u of None \<Rightarrow> filename doc | Some v \<Rightarrow> v),
      extractedText = (case upd_extractedText u of None \<Rightarrow> extractedText doc | Some v \<Rightarrow> v),
      uploadedAt = (case upd_uploadedAt u of None \<Rightarrow> uploadedAt doc | Some v \<Rightarrow> v),
      textractJobId = (case upd_textractJobId u of None \<Rightarrow> textractJobId doc | Some v \<Rightarrow> Some v),
      status = (case upd_status u of None \<Rightarrow> status doc | Some v \<Rightarrow> v)\<rparr>"

text \<open>
  \<open>findOneAndUpdate\<close> with \<open>returnDocument: "after"\<close>: the first document that matches
  the filter is replaced by its update and returned; \<open>null\<close> when none matches.
\<close>

fun findOneAndUpdate ::
  "(PDFMetadata \<Rightarrow> bool) \<Rightarrow> (PDFMetadata \<Rightarrow> PDFMetadata) \<Rightarrow> PDFMetadata list
     \<Rightarrow> PDFMetadata list \<times> PDFMetadata option" where
  "findOneAndUpdate flt upd [] = ([], None)"
| "findOneAndUpdate flt upd (doc # docs) =
     (if flt doc then (upd doc # docs, Some (upd doc))
      else (case findOneAndUpdate flt upd docs of (docs', result) \<Rightarrow> (doc # docs', result)))"

definition updatePDFMetadata ::
  "string \<Rightarrow> PDFMetadataPartial \<Rightarrow> mongo \<Rightarrow> (js_error + PDFMetadata option) \<times> mongo" where
  "updatePDFMetadata ident updates db =
     (let db0 = db\<lparr>calls := calls db @ [UpdatePDFMetadataCall ident]\<rparr>
      in case unavailable db of
           Some error \<Rightarrow>
             (Inl (mkError (''Failed to update PDF metadata in MongoDB: '' @ err_message error)),
              db0)
         | None \<Rightarrow>
             (let updateFields = updates\<lparr>upd_id := None\<rparr>
              in case findOneAndUpdate (\<lambda>doc. pdf_id doc = ident) (set_fields updateFields)
                        (documents db) of
                   (docs', result) \<Rightarrow>
                     (Inr (map_option toPDFMetadata result), db0\<lparr>documents := docs'\<rparr>)))"

definition searchMetadata :: "string \<Rightarrow> mongo \<Rightarrow> (js_error + PDFMetadata list) \<times> mongo" where
  "searchMetadata query db =
     (let db0 = db\<lparr>calls := calls db @ [SearchMetadataCall query]\<rparr>;
          failed = (\<lambda>error. Inl (mkError (''Failed to search metadata in MongoDB: ''
                                         @ err_message error)))
      in case unavailable db of
           Some error \<Rightarrow> (failed error, db0)
         | None \<Rightarrow>
             (let found =
                    (case textSearch db query of
                       Inl textSearchError \<Rightarrow> []
                     | Inr matches \<Rightarrow>
                         filter (\<lambda>doc. status doc = Completed \<and> matches (extractedText doc))
                           (documents db))
              in if length found = 0
                 then (case regexSearch db query of
                         Inl error \<Rightarrow> (failed error, db0)
                       | Inr matches \<Rightarrow>
                           (Inr (map toPDFMetadata
                                  (filter (\<lambda>doc. status doc = Completed
                                                 \<and> matches (extractedText doc))
                                     (documents db))),
                            db0))
                 else (Inr (map toPDFMetadata found), db0)))"

section \<open>Search handler (app/api/search/route)\<close>

text \<open>
  The two library functions whose tables the handler relies on:
  \<open>String.prototype.toLowerCase\<close> and \<open>new Date(s).getTime()\<close>.
\<close>

record js_runtime =
  toLowerCase :: "string \<Rightarrow> string"
  getTime :: "string \<Rightarrow> int"

text \<open>\<open>String.prototype.trim\<close> on the white space and line terminators below U+0100.\<close>

definition is_space :: "char \<Rightarrow> bool" where
  "is_space c = (of_char c \<in> {9, 10, 11, 12, 13, 32, 160 :: nat})"

definition trim :: "string \<Rightarrow> string" where
  "trim s = rev (dropWhile is_space (rev (dropWhile is_space s)))"

text \<open>
  \<open>String.prototype.indexOf\<close>: the smallest position at which the search string starts,
  or \<open>-1\<close>.
\<close>

fun indexOf_from :: "string \<Rightarrow> string \<Rightarrow> int \<Rightarrow> int" where
  "indexOf_from [] s k = (if s = [] then k else - 1)"
| "indexOf_from (c # cs) s k = (if prefix s (c # cs) then k else indexOf_from cs s (k + 1))"

definition indexOf :: "string \<Rightarrow> string \<Rightarrow> int" where
  "indexOf t s = indexOf_from t s 0"

definition includes_str :: "string \<Rightarrow> string \<Rightarrow> bool" where
  "includes_str t s = (indexOf t s \<noteq> - 1)"

text \<open>
  \<open>String.prototype.substring\<close>: both positions are clamped to the string and swapped
  when the first is the larger.
\<close>

definition substring :: "string \<Rightarrow> int \<Rightarrow> int \<Rightarrow> string" where
  "substring s start finish =
     (let len = int (length s);
          finalStart = min (max start 0) len;
          finalEnd = min (max finish 0) len;
          lo = min finalStart finalEnd;
          hi = max finalStart finalEnd
      in take (nat (hi - lo)) (drop (nat lo) s))"

record SearchResult =
  res_id :: string
  res_filename :: string
  res_uploadedAt :: string
  res_matchPreview :: string
  res_extractedText :: string

text \<open>The preview that the handler computes for one result.\<close>

definition matchPreview :: "js_runtime \<Rightarrow> string \<Rightarrow> string \<Rightarrow> string" where
  "matchPreview rt text query =
     (let lowerText = toLowerCase rt text;
          lowerQuery = toLowerCase rt query;
          matchIndex = indexOf lowerText lowerQuery
      in if matchIndex \<noteq> - 1
         then substring text (max 0 (matchIndex - 50))
                (min (int (length text)) (matchIndex + int (length query) + 50))
         else [])"

definition formatResult :: "js_runtime \<Rightarrow> string \<Rightarrow> PDFMetadata \<Rightarrow> SearchResult" where
  "formatResult rt query result =
     \<lparr>res_id = pdf_id result, res_filename = filename result,
      res_uploadedAt = uploadedAt result,
      res_matchPreview = matchPreview rt (extractedText result) query,
      res_extractedText = extractedText result\<rparr>"

definition compareResults :: "js_runtime \<Rightarrow> string \<Rightarrow> SearchResult \<Rightarrow> SearchResult \<Rightarrow> int" where
  "compareResults rt query a b =
     (let aExact = includes_str (toLowerCase rt (res_matchPreview a)) (toLowerCase rt query);
          bExact = includes_str (toLowerCase rt (res_matchPreview b)) (toLowerCase rt query)
      in if aExact \<and> \<not> bExact then - 1
         else if \<not> aExact \<and> bExact then 1
         else getTime rt (res_uploadedAt b) - getTime rt (res_uploadedAt a))"

text \<open>
  \<open>Array.prototype.sort\<close> with a comparator, as a stable insertion sort (the order that
  the language fixes when the comparator is consistent).
\<close>

fun insert_sorted :: "('a \<Rightarrow> 'a \<Rightarrow> int) \<Rightarrow> 'a \<Rightarrow> 'a list \<Rightarrow> 'a list" where
  "insert_sorted cmp x [] = [x]"
| "insert_sorted cmp x (y # ys) =
     (if cmp x y \<le> 0 then x # y # ys else y # insert_sorted cmp x ys)"

definition sort_with :: "('a \<Rightarrow> 'a \<Rightarrow> int) \<Rightarrow> 'a list \<Rightarrow> 'a list" where
  "sort_with cmp xs = foldr (insert_sorted cmp) xs []"

datatype response_body =
    ErrorBody string
  | SearchBody string "SearchResult list" nat
  | ProcessedBody string nat

datatype http_response = Json (status_code: nat) (body: response_body)

text \<open>The search handler, on the value of the parameter \<open>q\<close> (absent: \<open>None\<close>).\<close>

definition GET :: "js_runtime \<Rightarrow> string option \<Rightarrow> mongo \<Rightarrow> http_response \<times> mongo" where
  "GET rt q db =
     (case q of
        None \<Rightarrow> (Json 400 (ErrorBody ''Query must be at least 2 characters''), db)
      | Some query \<Rightarrow>
          if query = [] \<or> length (trim query) < 2
          then (Json 400 (ErrorBody ''Query must be at least 2 characters''), db)
          else (case searchMetadata query db of
                  (Inl error, db') \<Rightarrow> (Json 500 (ErrorBody (err_message error)), db')
                | (Inr results, db') \<Rightarrow>
                    (let formattedResults =
                           sort_with (compareResults rt query) (map (formatResult rt query) results)
                     in (Json 200 (SearchBody query formattedResults (length formattedResults)),
                         db'))))"

section \<open>Process handler (app/api/process/route)\<close>

text \<open>The fields that the handler destructures from the request body.\<close>

record process_body =
  body_id :: "string option"
  body_s3Key :: "string option"

text \<open>
  A request: its body, if it has one, as what parsing it gives, and whether the body has
  been read. A body is a stream and can be read once: \<open>request.json()\<close> on a body that
  was read rejects with a \<open>TypeError\<close>. A request without a body is never marked as
  read; every \<open>request.json()\<close> on it parses the empty text and rejects with a
  \<open>SyntaxError\<close>.
\<close>

record request =
  json_body :: "(js_error + process_body) option"
  bodyUsed :: bool

definition request_json :: "request \<Rightarrow> (js_error + process_body) \<times> request" where
  "request_json req =
     (case json_body req of
        None \<Rightarrow> (Inl (JsError ''SyntaxError'' ''Unexpected end of JSON input''), req)
      | Some parsed \<Rightarrow>
          if bodyUsed req
          then (Inl (JsError ''TypeError'' ''Body is unusable: Body has already been read''),
                req)
          else (parsed, req\<lparr>bodyUsed := True\<rparr>))"

datatype handler_result = Returned http_response | Rejected js_error

text \<open>
  The \<open>catch\<close> block of the handler: it reads the request body again, marks the document
  as failed (an error of that update is caught and logged), deletes the object (an error
  of \<open>deleteFromS3\<close> is caught and logged, here and in the \<open>try\<close> block, so only the
  call is recorded) and answers with the message of the caught error.
\<close>

definition POST_catch ::
  "js_error \<Rightarrow> request \<Rightarrow> mongo \<Rightarrow> string list
     \<Rightarrow> handler_result \<times> mongo \<times> string list" where
  "POST_catch error req db deleted =
     (case fst (request_json req) of
        Inl thrown \<Rightarrow> (Rejected thrown, db, deleted)
      | Inr b \<Rightarrow>
          (let db' = (if truthy (body_id b)
                      then snd (updatePDFMetadata (or_default (body_id b) [])
                                  \<lparr>upd_id = None, upd_filename = None, upd_extractedText = None,
                                   upd_uploadedAt = None, upd_textractJobId = None,
                                   upd_status = Some Failed\<rparr> db)
                      else db);
               deleted' = (if truthy (body_s3Key b)
                           then deleted @ [or_default (body_s3Key b) []] else deleted)
           in (Returned (Json 500 (ErrorBody (err_message error))), db', deleted')))"

text \<open>
  The handler, given the outcome \<open>extraction\<close> of \<open>processDocument(s3Key)\<close>. Besides its
  answer it gives the store it leaves behind and the keys for which \<open>deleteFromS3\<close> was
  called.
\<close>

definition POST ::
  "request \<Rightarrow> (js_error + string) \<Rightarrow> mongo \<Rightarrow> handler_result \<times> mongo \<times> string list" where
  "POST req extraction db =
     (case request_json req of
        (Inl thrown, req') \<Rightarrow> POST_catch thrown req' db []
      | (Inr b, req') \<Rightarrow>
          if \<not> truthy (body_id b) \<or> \<not> truthy (body_s3Key b)
          then (Returned (Json 400 (ErrorBody ''Missing id or s3Key'')), db, [])
          else (case extraction of
                  Inl thrown \<Rightarrow> POST_catch thrown req' db []
                | Inr extractedText' \<Rightarrow>
                    (let ident = or_default (body_id b) [];
                         s3Key = or_default (body_s3Key b) []
                     in case updatePDFMetadata ident
                               \<lparr>upd_id = None, upd_filename = None,
                                upd_extractedText = Some extractedText',
                                upd_uploadedAt = None, upd_textractJobId = None,
                                upd_status = Some Completed\<rparr> db of
                          (Inl thrown, db') \<Rightarrow> POST_catch thrown req' db' [s3Key]
                        | (Inr updated, db') \<Rightarrow>
                            (Returned (Json 200 (ProcessedBody ident (length extractedText'))),
                             db', [s3Key]))))"

section \<open>Notions of the specification\<close>

text \<open>
  The text assembled from result fragments, in the words of the specification: the texts
  of the fragments of type line, in arrival order, with one newline between neighbours.
\<close>

fun line_texts :: "block list \<Rightarrow> string list" where
  "line_texts [] = []"
| "line_texts (b # bs) =
     (if BlockType b = Some ''LINE''
      then (case Text b of None \<Rightarrow> [] | Some t \<Rightarrow> t) # line_texts bs
      else line_texts bs)"

fun newline_separated :: "string list \<Rightarrow> string" where
  "newline_separated [] = []"
| "newline_separated [l] = l"
| "newline_separated (l # l' # ls) = l @ ''\<newline>'' @ newline_separated (l' # ls)"

text \<open>
  The backoff sequence of the specification, in milliseconds: the base, then the previous
  interval times 1.5, held at the cap.
\<close>

fun backoff_spec :: "nat \<Rightarrow> rat" where
  "backoff_spec 0 = 2000"
| "backoff_spec (Suc n) = min (backoff_spec n * 1.5) 30000"

text \<open>
  A run whose first \<open>n\<close> polls, each with its pages, succeed and report \<open>IN_PROGRESS\<close>:
  the blocks accumulated by then and the rest of the script.
\<close>

fun in_progress_polls ::
  "nat \<Rightarrow> block list \<Rightarrow> (js_error + detection_response) list
     \<Rightarrow> (block list \<times> (js_error + detection_response) list) option" where
  "in_progress_polls 0 allBlocks rem = Some (allBlocks, rem)"
| "in_progress_polls (Suc n) allBlocks [] = None"
| "in_progress_polls (Suc n) allBlocks (sent # rest) =
     (case getTextExtractionStatus sent of
        Inl error \<Rightarrow> None
      | Inr (status', blocks, nextToken) \<Rightarrow>
          if status' = ''IN_PROGRESS''
          then (case fetchPages nextToken (concat_blocks allBlocks blocks) rest of
                  Some (Inr (allBlocks', rest')) \<Rightarrow> in_progress_polls n allBlocks' rest'
                | _ \<Rightarrow> None)
          else None)"

text \<open>Lower case on the letters of ASCII, and occurrence of a string ignoring case.\<close>

definition lower_char :: "char \<Rightarrow> char" where
  "lower_char c =
     (case map_of (zip ''ABCDEFGHIJKLMNOPQRSTUVWXYZ'' ''abcdefghijklmnopqrstuvwxyz'') c of
        None \<Rightarrow> c
      | Some l \<Rightarrow> l)"

definition occurs_ignoring_case :: "string \<Rightarrow> string \<Rightarrow> bool" where
  "occurs_ignoring_case q t = sublist (map lower_char q) (map lower_char t)"

text \<open>
  Regular expressions, as far as they are needed here: the patterns in which the dot is the
  only metacharacter. A character of the pattern matches itself, ignoring case (option
  \<open>i\<close>); the dot matches every character but the newline; the pattern may match anywhere
  in the text.
\<close>

definition regex_metachars :: "char set" where
  "regex_metachars = set ''^$.|?*+()[]{}'' \<union> {CHR 0x5C}"

datatype regex_atom = Literal char | AnyChar

fun atom_matches :: "regex_atom \<Rightarrow> char \<Rightarrow> bool" where
  "atom_matches (Literal a) c = (lower_char a = lower_char c)"
| "atom_matches AnyChar c = (c \<noteq> CHR 0x0A)"

fun matches_here :: "regex_atom list \<Rightarrow> string \<Rightarrow> bool" where
  "matches_here [] t = True"
| "matches_here (a # as) [] = False"
| "matches_here (a # as) (c # cs) = (atom_matches a c \<and> matches_here as cs)"

fun matches_anywhere :: "regex_atom list \<Rightarrow> string \<Rightarrow> bool" where
  "matches_anywhere as [] = matches_here as []"
| "matches_anywhere as (c # cs) = (matches_here as (c # cs) \<or> matches_anywhere as cs)"

definition parse_pattern :: "string \<Rightarrow> regex_atom list option" where
  "parse_pattern p =
     (if list_ex (\<lambda>c. c \<in> regex_metachars \<and> c \<noteq> CHR ''.'') p then None
      else Some (map (\<lambda>c. if c = CHR ''.'' then AnyChar else Literal c) p))"

text \<open>A store's \<open>$regex\<close> operator is right on the patterns of that fragment.\<close>

definition regex_search_sound :: "mongo \<Rightarrow> bool" where
  "regex_search_sound db =
     (\<forall>p atoms. parse_pattern p = Some atoms \<longrightarrow> regexSearch db p = Inr (matches_anywhere atoms))"

text \<open>
  The first tier of the search: the completed documents that the indexed full-text search
  matches; none when that search throws.
\<close>

definition text_hits :: "string \<Rightarrow> mongo \<Rightarrow> PDFMetadata list" where
  "text_hits q db =
     (case textSearch db q of
        Inl error \<Rightarrow> []
      | Inr matches \<Rightarrow>
          filter (\<lambda>doc. status doc = Completed \<and> matches (extractedText doc)) (documents db))"

text \<open>The first occurrence of a string in a text: it starts at \<open>i\<close> and nowhere before.\<close>

definition occurs_first_at :: "string \<Rightarrow> string \<Rightarrow> nat \<Rightarrow> bool" where
  "occurs_first_at s t i =
     (i \<le> length t \<and> prefix s (drop i t) \<and> (\<forall>j<i. \<not> prefix s (drop j t)))"

section \<open>Example runs\<close>

definition line_block :: "string \<Rightarrow> block" where
  "line_block t = \<lparr>BlockType = Some ''LINE'', Text = Some t\<rparr>"

definition word_block :: "string \<Rightarrow> block" where
  "word_block t = \<lparr>BlockType = Some ''WORD'', Text = Some t\<rparr>"

definition poll_response :: "string option \<Rightarrow> block list \<Rightarrow> string option \<Rightarrow> js_error + detection_response" where
  "poll_response s bs tok = Inr \<lparr>JobStatus = s, Blocks = Some bs, NextToken = tok\<rparr>"

definition slow_job_env :: textract_env where
  "slow_job_env =
     \<lparr>bucket = Some ''pdf-bucket'', startResult = Inr (Some ''job-1''),
      clock = [0, 5, 2010, 5020, 9530, 16290, 26420, 41610, 64400, 94410, 124420],
      remote = replicate 9 (poll_response (Some ''IN_PROGRESS'') [] None)
                 @ [poll_response (Some ''SUCCEEDED'') [line_block ''Hello'', line_block ''World''] None]\<rparr>"

definition stuck_job_env :: textract_env where
  "stuck_job_env =
     \<lparr>bucket = Some ''pdf-bucket'', startResult = Inr (Some ''job-2''),
      clock = [1000, 1005, 3010, 301001],
      remote = [poll_response (Some ''IN_PROGRESS'') [line_block ''Hello''] (Some ''page-2''),
                poll_response None [line_block ''World''] None,
                poll_response (Some ''IN_PROGRESS'') [line_block ''again''] None,
                poll_response (Some ''IN_PROGRESS'') [] None]\<rparr>"

definition unknown_status_env :: textract_env where
  "unknown_status_env =
     \<lparr>bucket = Some ''pdf-bucket'', startResult = Inr (Some ''job-3''),
      clock = [0, 5, 2010],
      remote = [poll_response (Some ''IN_PROGRESS'') [line_block ''Hello''] None,
                poll_response None [word_block ''World'', line_block ''World''] None]\<rparr>"

definition partial_success_env :: textract_env where
  "partial_success_env =
     \<lparr>bucket = Some ''pdf-bucket'', startResult = Inr (Some ''job-4''),
      clock = [0, 5],
      remote = [poll_response (Some ''PARTIAL_SUCCESS'') [line_block ''Hello''] (Some ''page-2''),
                poll_response None [line_block ''World''] None]\<rparr>"


text \<open>
  An example store. Its text index matches whole words, ignoring case; its regular
  expressions are those of the fragment above, any other pattern is rejected.
\<close>

fun words_of :: "string \<Rightarrow> string list" where
  "words_of [] = [[]]"
| "words_of (c # cs) =
     (if c = CHR '' '' then [] # words_of cs
      else (case words_of cs of [] \<Rightarrow> [[c]] | w # ws \<Rightarrow> (c # w) # ws))"

definition token_search :: "string \<Rightarrow> js_error + (string \<Rightarrow> bool)" where
  "token_search q = Inr (\<lambda>t. map lower_char q \<in> set (words_of (map lower_char t)))"

definition fragment_regex :: "string \<Rightarrow> js_error + (string \<Rightarrow> bool)" where
  "fragment_regex p =
     (case parse_pattern p of
        Some atoms \<Rightarrow> Inr (matches_anywhere atoms)
      | None \<Rightarrow> Inl (JsError ''MongoServerError'' ''Regular expression is not supported''))"

definition hello_doc :: PDFMetadata where
  "hello_doc =
     \<lparr>pdf_id = ''doc-1'', filename = ''hello.pdf'', extractedText = ''Hello World example'',
      uploadedAt = ''2024-05-01T10:00:00.000Z'', textractJobId = None, status = Completed\<rparr>"

definition pending_doc :: PDFMetadata where
  "pending_doc =
     \<lparr>pdf_id = ''doc-2'', filename = ''draft.pdf'', extractedText = ''Hello World draft'',
      uploadedAt = ''2024-05-02T10:00:00.000Z'', textractJobId = Some ''job-2'',
      status = Processing\<rparr>"

definition failed_doc :: PDFMetadata where
  "failed_doc =
     \<lparr>pdf_id = ''doc-3'', filename = ''broken.pdf'', extractedText = ''Hello World broken'',
      uploadedAt = ''2024-05-03T10:00:00.000Z'', textractJobId = None, status = Failed\<rparr>"

definition abc_doc :: PDFMetadata where
  "abc_doc =
     \<lparr>pdf_id = ''doc-4'', filename = ''abc.pdf'', extractedText = ''abc'',
      uploadedAt = ''2024-05-04T10:00:00.000Z'', textractJobId = None, status = Completed\<rparr>"

definition example_store :: mongo where
  "example_store =
     \<lparr>documents = [pending_doc, hello_doc, failed_doc, abc_doc], unavailable = None,
      textSearch = token_search, regexSearch = fragment_regex, calls = []\<rparr>"

definition example_update :: PDFMetadataPartial where
  "example_update =
     \<lparr>upd_id = Some ''doc-9'', upd_filename = None, upd_extractedText = Some ''X'',
      upd_uploadedAt = None, upd_textractJobId = None, upd_status = Some Completed\<rparr>"

text \<open>
  A runtime whose \<open>toLowerCase\<close> is that of ASCII and a text with a match far from both
  ends.
\<close>

definition ascii_runtime :: js_runtime where
  "ascii_runtime = \<lparr>toLowerCase = map lower_char, getTime = (\<lambda>s. 0)\<rparr>"

definition report_text :: string where
  "report_text = ''Scanned by the office copier on the second floor at noon. Hello World example page, followed by the remaining lines of the report.''"

text \<open>
  A runtime whose \<open>toLowerCase\<close> makes a text longer, as that of JavaScript does: the
  lower case of U+0130 (capital I with dot above) is the two code units U+0069 U+0307. The
  characters of this theory are bytes, so U+0130 and U+0307 are written as the bytes 0xDD
  and 0xB7. The text has sixty times U+0130 and then \<open>hello\<close>.
\<close>

definition capital_I_dot :: char where
  "capital_I_dot = CHR 0xDD"

definition combining_dot :: char where
  "combining_dot = CHR 0xB7"

definition expanding_runtime :: js_runtime where
  "expanding_runtime =
     \<lparr>toLowerCase =
        (\<lambda>s. concat (map (\<lambda>c. if c = capital_I_dot then [CHR ''i'', combining_dot]
                                else [lower_char c]) s)),
      getTime = (\<lambda>s. 0)\<rparr>"

definition ten_dotted :: string where
  "ten_dotted =
     [capital_I_dot, capital_I_dot, capital_I_dot, capital_I_dot, capital_I_dot,
      capital_I_dot, capital_I_dot, capital_I_dot, capital_I_dot, capital_I_dot]"

definition dotted_text :: string where
  "dotted_text =
     ten_dotted @ ten_dotted @ ten_dotted @ ten_dotted @ ten_dotted @ ten_dotted @ ''hello''"

text \<open>A request whose extraction fails.\<close>

definition failing_request :: request where
  "failing_request =
     \<lparr>json_body = Some (Inr \<lparr>body_id = Some ''doc-2'',
                               body_s3Key = Some ''temp-pdfs/2-draft.pdf''\<rparr>),
      bodyUsed = False\<rparr>"

definition extraction_failure :: js_error where
  "extraction_failure =
     mkError ''Failed to process document: Textract job failed. Please check the PDF and try again.''"

section \<open>Text assembly\<close>

lemma join_from_pos:
  "0 < k \<Longrightarrow> join_from sep R k xs = R @ concat (map (\<lambda>x. sep @ x) xs)"
  by (induction xs arbitrary: R k) simp_all

lemma newline_separated_Cons:
  "newline_separated (x # xs) = x @ concat (map (\<lambda>y. ''\<newline>'' @ y) xs)"
  by (induction xs arbitrary: x) simp_all

lemma join_newline_separated: "join ''\<newline>'' xs = newline_separated xs"
proof (cases xs)
  case Nil
  then show ?thesis by (simp add: join_def)
next
  case (Cons x ys)
  then show ?thesis
    by (simp add: join_def join_from_pos newline_separated_Cons del: newline_separated.simps)
qed

lemma line_texts_filter_map:
  "map (\<lambda>block. or_default (Text block) [])
     (filter (\<lambda>block. BlockType block = Some ''LINE'') bs) = line_texts bs"
  by (induction bs) (auto simp: or_default_def split: option.splits)

text \<open>
  C6. For every list of result fragments, the assembled text is made of the \<open>Text\<close>
  values of exactly the fragments whose \<open>BlockType\<close> is \<open>LINE\<close>, in arrival order,
  joined by a single newline; every other fragment is discarded. The line fragments
  \<open>Hello\<close> and \<open>World\<close> assemble to \<open>Hello\<close>, a newline, \<open>World\<close>.
\<close>

theorem extractTextFromBlocks_assembles:
  "extractTextFromBlocks (Some bs) = newline_separated (line_texts bs)
   \<and> extractTextFromBlocks (Some [\<lparr>BlockType = Some ''LINE'', Text = Some ''Hello''\<rparr>,
                                   \<lparr>BlockType = Some ''LINE'', Text = Some ''World''\<rparr>])
       = ''Hello\<newline>World''"
proof
  show "extractTextFromBlocks (Some bs) = newline_separated (line_texts bs)"
    by (simp only: extractTextFromBlocks_def option.case line_texts_filter_map
          join_newline_separated)
  show "extractTextFromBlocks (Some [\<lparr>BlockType = Some ''LINE'', Text = Some ''Hello''\<rparr>,
                                   \<lparr>BlockType = Some ''LINE'', Text = Some ''World''\<rparr>])
       = ''Hello\<newline>World''"
    by (simp add: extractTextFromBlocks_def join_def or_default_def)
qed

theorem extractTextFromBlocks_assembles_witness:
  "extractTextFromBlocks
     (Some [\<lparr>BlockType = Some ''PAGE'', Text = None\<rparr>,
            \<lparr>BlockType = Some ''LINE'', Text = Some ''Hello''\<rparr>,
            \<lparr>BlockType = Some ''WORD'', Text = Some ''Hello''\<rparr>,
            \<lparr>BlockType = Some ''LINE'', Text = Some ''World''\<rparr>,
            \<lparr>BlockType = None, Text = Some ''World''\<rparr>])
   = ''Hello\<newline>World''"
  using extractTextFromBlocks_assembles
    [of "[\<lparr>BlockType = Some ''PAGE'', Text = None\<rparr>,
            \<lparr>BlockType = Some ''LINE'', Text = Some ''Hello''\<rparr>,
            \<lparr>BlockType = Some ''WORD'', Text = Some ''Hello''\<rparr>,
            \<lparr>BlockType = Some ''LINE'', Text = Some ''World''\<rparr>,
            \<lparr>BlockType = None, Text = Some ''World''\<rparr>]"]
  by simp

section \<open>The poll loop\<close>

lemmas textract_defs =
  startTextExtraction_def getTextExtractionStatus_def truthy_def or_default_def
  concat_blocks_def mkError_def timeoutMs_def poll_response_def line_block_def

lemma pollLoop_fst_Cons:
  "fst (pollLoop st stat blocks b n (now # clk) rem) =
     (if stat = ''IN_PROGRESS'' \<and> \<not> now - st > timeoutMs
      then (case rem of
              [] \<Rightarrow> [b]
            | sent # rest \<Rightarrow>
                (case getTextExtractionStatus sent of
                   Inl error \<Rightarrow> [b]
                 | Inr (stat', bl, tok) \<Rightarrow>
                     (case fetchPages tok (concat_blocks blocks bl) rest of
                        Some (Inr (blocks', rest')) \<Rightarrow>
                          b # fst (pollLoop st stat' blocks' (min (b * 1.5) maxBackoffMs)
                                     (Suc n) clk rest')
                      | _ \<Rightarrow> [b])))
      else [])"
  by (simp split: list.splits sum.splits option.splits prod.splits)

lemma pollLoop_snd_Cons:
  "snd (pollLoop st stat blocks b n (now # clk) rem) =
     (if stat = ''IN_PROGRESS''
      then if now - st > timeoutMs
           then Some (Inl (mkError
                  ''Text extraction timed out after 5 minutes. Document may be too large.''))
           else (case rem of
                   [] \<Rightarrow> None
                 | sent # rest \<Rightarrow>
                     (case getTextExtractionStatus sent of
                        Inl error \<Rightarrow> Some (Inl error)
                      | Inr (stat', bl, tok) \<Rightarrow>
                          (case fetchPages tok (concat_blocks blocks bl) rest of
                             None \<Rightarrow> None
                           | Some (Inl error) \<Rightarrow> Some (Inl error)
                           | Some (Inr (blocks', rest')) \<Rightarrow>
                               snd (pollLoop st stat' blocks' (min (b * 1.5) maxBackoffMs)
                                      (Suc n) clk rest'))))
      else Some (Inr (stat, blocks)))"
  by (simp split: list.splits sum.splits option.splits prod.splits)

lemma pollLoop_waits:
  assumes f: "\<And>x. f x = min (x * 1.5) maxBackoffMs"
  shows "\<exists>m. fst (pollLoop st stat blocks b n clk rem) = map (\<lambda>k. (f ^^ k) b) [0..<m]"
proof (induction clk arbitrary: stat blocks b n rem)
  case Nil
  have "fst (pollLoop st stat blocks b n [] rem) = map (\<lambda>k. (f ^^ k) b) [0..<0]"
    by simp
  then show ?case by blast
next
  case (Cons now clk)
  have one: "[b] = map (\<lambda>k. (f ^^ k) b) [0..<1]" by simp
  have zero: "[] = map (\<lambda>k. (f ^^ k) b) [0..<0]" by simp
  have step: "b # map (\<lambda>k. (f ^^ k) (f b)) [0..<m] = map (\<lambda>k. (f ^^ k) b) [0..<Suc m]" for m
    by (simp only: map_upt_Suc funpow_0 funpow_Suc_right o_apply)
  have "fst (pollLoop st stat blocks b n (now # clk) rem) = []
        \<or> fst (pollLoop st stat blocks b n (now # clk) rem) = [b]
        \<or> (\<exists>stat' blocks' rest'. fst (pollLoop st stat blocks b n (now # clk) rem)
              = b # fst (pollLoop st stat' blocks' (f b) (Suc n) clk rest'))"
    by (simp add: pollLoop_fst_Cons f del: pollLoop.simps
          split: list.splits sum.splits option.splits prod.splits) blast
  then consider
      "fst (pollLoop st stat blocks b n (now # clk) rem) = []"
    | "fst (pollLoop st stat blocks b n (now # clk) rem) = [b]"
    | stat' blocks' rest' where
        "fst (pollLoop st stat blocks b n (now # clk) rem)
           = b # fst (pollLoop st stat' blocks' (f b) (Suc n) clk rest')"
    by blast
  then show ?case
  proof cases
    case 1
    then show ?thesis using zero by metis
  next
    case 2
    then show ?thesis using one by metis
  next
    case 3
    from Cons.IH[of stat' blocks' "f b" "Suc n" rest'] obtain m where
      "fst (pollLoop st stat' blocks' (f b) (Suc n) clk rest') = map (\<lambda>k. (f ^^ k) (f b)) [0..<m]"
      by blast
    with 3 step[of m] show ?thesis by metis
  qed
qed

lemma backoff_spec_funpow:
  assumes f: "\<And>x. f x = min (x * 1.5) maxBackoffMs"
  shows "(f ^^ k) 2000 = backoff_spec k"
  by (induction k) (simp_all add: f maxBackoffMs_def)

lemma backoff_spec_bounds: "2000 \<le> backoff_spec k \<and> backoff_spec k \<le> 30000"
  by (induction k) auto

lemma backoff_spec_step: "backoff_spec k \<le> backoff_spec (Suc k)"
  using backoff_spec_bounds[of k] by simp

lemma backoff_spec_mono: "i \<le> j \<Longrightarrow> backoff_spec i \<le> backoff_spec j"
  by (rule lift_Suc_mono_le[of backoff_spec]) (rule backoff_spec_step)

lemma processDocument_fst:
  "fst (processDocument s3Key env) =
     (case startTextExtraction s3Key env of
        Inl error \<Rightarrow> []
      | Inr jobId \<Rightarrow>
          (case clock env of
             [] \<Rightarrow> []
           | startTime # clk \<Rightarrow>
               fst (pollLoop startTime ''IN_PROGRESS'' [] 2000 0 clk (remote env))))"
  by (simp add: processDocument_def Let_def
        split: sum.splits list.splits prod.splits option.splits)

lemma processDocument_waits:
  "\<exists>m. fst (processDocument s3Key env) = map backoff_spec [0..<m]"
proof -
  have nil: "[] = map backoff_spec [0..<0]" by simp
  show ?thesis
  proof (cases "fst (processDocument s3Key env) = []")
    case True
    then show ?thesis using nil by metis
  next
    case False
    then obtain startTime clk where
      "fst (processDocument s3Key env)
         = fst (pollLoop startTime ''IN_PROGRESS'' [] 2000 0 clk (remote env))"
      by (auto simp: processDocument_fst split: sum.splits list.splits)
    moreover have "\<exists>m. fst (pollLoop startTime ''IN_PROGRESS'' [] 2000 0 clk (remote env))
          = map (\<lambda>k. ((\<lambda>x. min (x * 1.5) maxBackoffMs) ^^ k) 2000) [0..<m]"
      by (rule pollLoop_waits) simp
    moreover have "((\<lambda>x. min (x * 1.5) maxBackoffMs) ^^ k) 2000 = backoff_spec k" for k
      by (rule backoff_spec_funpow) simp
    ultimately show ?thesis by (simp only:)
  qed
qed

text \<open>
  C5. In every run of \<open>processDocument\<close> the delays between polls are the backoff
  sequence of the specification, whatever the remote service and the clock do: the first is
  2000 ms, each later one is 1.5 times the one before, held at the cap of 30000 ms. The
  sequence never decreases and no delay exceeds the cap. The delays depend on nothing but
  their number.
\<close>

theorem processDocument_backoff:
  "fst (processDocument s3Key env)
     = map backoff_spec [0..<length (fst (processDocument s3Key env))]
   \<and> (fst (processDocument s3Key env) \<noteq> [] \<longrightarrow> hd (fst (processDocument s3Key env)) = 2000)
   \<and> (\<forall>k. Suc k < length (fst (processDocument s3Key env)) \<longrightarrow>
          fst (processDocument s3Key env) ! Suc k
            = min (fst (processDocument s3Key env) ! k * 1.5) 30000)
   \<and> sorted (fst (processDocument s3Key env))
   \<and> (\<forall>w \<in> set (fst (processDocument s3Key env)). 2000 \<le> w \<and> w \<le> 30000)"
proof -
  obtain m where m: "fst (processDocument s3Key env) = map backoff_spec [0..<m]"
    using processDocument_waits by blast
  have "sorted (map backoff_spec [0..<m])"
    by (simp add: sorted_map sorted_wrt_iff_nth_less backoff_spec_mono del: backoff_spec.simps)
  moreover have "\<forall>w \<in> set (map backoff_spec [0..<m]). 2000 \<le> w \<and> w \<le> 30000"
    using backoff_spec_bounds by auto
  moreover have "map backoff_spec [0..<m] \<noteq> [] \<longrightarrow> hd (map backoff_spec [0..<m]) = 2000"
    by (cases m) (simp_all add: upt_conv_Cons del: upt_Suc)
  moreover have "\<forall>k. Suc k < length (map backoff_spec [0..<m]) \<longrightarrow>
          map backoff_spec [0..<m] ! Suc k = min (map backoff_spec [0..<m] ! k * 1.5) 30000"
    by simp
  ultimately show ?thesis using m by simp
qed

theorem processDocument_backoff_witness:
  "fst (processDocument ''temp-pdfs/1-a.pdf'' slow_job_env)
   = [2000, 3000, 4500, 6750, 10125, 30375 / 2, 91125 / 4, 30000, 30000, 30000]"
proof -
  have len: "length (fst (processDocument ''temp-pdfs/1-a.pdf'' slow_job_env)) = 10"
    by (simp add: processDocument_fst slow_job_env_def textract_defs maxBackoffMs_def
          numeral_eq_Suc)
  have seq: "map backoff_spec [0..<10]
             = [2000, 3000, 4500, 6750, 10125, 30375 / 2, 91125 / 4, 30000, 30000, 30000]"
    by (simp add: numeral_eq_Suc upt_rec)
  from processDocument_backoff[of "''temp-pdfs/1-a.pdf''" slow_job_env]
  have "fst (processDocument ''temp-pdfs/1-a.pdf'' slow_job_env) = map backoff_spec [0..<10]"
    by (simp only: len)
  then show ?thesis by (simp only: seq)
qed

lemma pollLoop_timeout:
  assumes "in_progress_polls (length ts) blocks rem = Some (blocks', rem')"
    and "\<forall>t \<in> set ts. t - st \<le> timeoutMs"
    and "now - st > timeoutMs"
  shows "snd (pollLoop st ''IN_PROGRESS'' blocks b n (ts @ now # later) rem)
         = Some (Inl (mkError
             ''Text extraction timed out after 5 minutes. Document may be too large.''))"
  using assms
proof (induction ts arbitrary: blocks b n rem)
  case Nil
  then show ?case by (simp add: pollLoop_snd_Cons del: pollLoop.simps)
next
  case (Cons t ts)
  from Cons.prems(1) obtain sent rest bl tok blocks1 rest1 where
    rem: "rem = sent # rest"
    and st: "getTextExtractionStatus sent = Inr (''IN_PROGRESS'', bl, tok)"
    and fp: "fetchPages tok (concat_blocks blocks bl) rest = Some (Inr (blocks1, rest1))"
    and ip: "in_progress_polls (length ts) blocks1 rest1 = Some (blocks', rem')"
    by (cases rem) (auto split: sum.splits option.splits if_splits prod.splits)
  have "snd (pollLoop st ''IN_PROGRESS'' blocks1 (min (b * 1.5) maxBackoffMs) (Suc n) (ts @ now # later) rest1)
        = Some (Inl (mkError
             ''Text extraction timed out after 5 minutes. Document may be too large.''))"
    using Cons.IH[OF ip] Cons.prems(2,3) by simp
  moreover have "t - st \<le> timeoutMs" using Cons.prems(2) by simp
  ultimately show ?case using rem st fp by (simp add: pollLoop_snd_Cons del: pollLoop.simps)
qed

lemma pollLoop_terminal:
  assumes "in_progress_polls (length ts) blocks rem = Some (blocks', sent # rest)"
    and "\<forall>t \<in> set ts. t - st \<le> timeoutMs"
    and "now - st \<le> timeoutMs"
    and "getTextExtractionStatus sent = Inr (stat, bl, tok)"
    and "stat \<noteq> ''IN_PROGRESS''"
    and "fetchPages tok (concat_blocks blocks' bl) rest = Some (Inr (allBlocks, rest'))"
  shows "snd (pollLoop st ''IN_PROGRESS'' blocks b n (ts @ now # later) rem)
         = Some (Inr (stat, allBlocks))"
  using assms
proof (induction ts arbitrary: blocks b n rem)
  case Nil
  then show ?case
    by (cases later) (simp_all add: pollLoop_snd_Cons del: pollLoop.simps(2))
next
  case (Cons t ts)
  from Cons.prems(1) obtain sent0 rest0 bl0 tok0 blocks1 rest1 where
    rem: "rem = sent0 # rest0"
    and st: "getTextExtractionStatus sent0 = Inr (''IN_PROGRESS'', bl0, tok0)"
    and fp: "fetchPages tok0 (concat_blocks blocks bl0) rest0 = Some (Inr (blocks1, rest1))"
    and ip: "in_progress_polls (length ts) blocks1 rest1 = Some (blocks', sent # rest)"
    by (cases rem) (auto split: sum.splits option.splits if_splits prod.splits)
  have "snd (pollLoop st ''IN_PROGRESS'' blocks1 (min (b * 1.5) maxBackoffMs) (Suc n) (ts @ now # later) rest1)
        = Some (Inr (stat, allBlocks))"
    using Cons.IH[OF ip] Cons.prems(2-) by simp
  moreover have "t - st \<le> timeoutMs" using Cons.prems(2) by simp
  ultimately show ?case using rem st fp by (simp add: pollLoop_snd_Cons del: pollLoop.simps)
qed

lemma processDocument_snd:
  "snd (processDocument s3Key env) =
     (case startTextExtraction s3Key env of
        Inl error \<Rightarrow> Some (Inl (mkError (''Failed to process document: '' @ err_message error)))
      | Inr jobId \<Rightarrow>
          (case clock env of
             [] \<Rightarrow> None
           | startTime # clk \<Rightarrow>
               (case snd (pollLoop startTime ''IN_PROGRESS'' [] 2000 0 clk (remote env)) of
                  None \<Rightarrow> None
                | Some (Inl error) \<Rightarrow>
                    Some (Inl (mkError (''Failed to process document: '' @ err_message error)))
                | Some (Inr (stat, allBlocks)) \<Rightarrow>
                    if stat = ''FAILED''
                    then Some (Inl (mkError (''Failed to process document: ''
                            @ ''Textract job failed. Please check the PDF and try again.'')))
                    else Some (Inr (extractTextFromBlocks (Some allBlocks))))))"
  by (simp add: processDocument_def Let_def mkError_def
        split: sum.splits list.splits prod.splits option.splits)

text \<open>
  C4. When the polls of a run keep reporting \<open>IN_PROGRESS\<close> until the clock, read at the
  top of the loop, is more than five minutes past the start, \<open>processDocument\<close> throws the
  timeout error; the blocks accumulated by then are not part of what the caller gets.
\<close>

theorem processDocument_timeout:
  assumes "startTextExtraction s3Key env = Inr jobId"
    and "clock env = startTime # ts @ now # later"
    and "in_progress_polls (length ts) [] (remote env) = Some (allBlocks, rest)"
    and "\<forall>t \<in> set ts. t - startTime \<le> timeoutMs"
    and "now - startTime > timeoutMs"
  shows "snd (processDocument s3Key env)
         = Some (Inl (mkError (''Failed to process document: '' @
             ''Text extraction timed out after 5 minutes. Document may be too large.'')))"
proof -
  have "snd (pollLoop startTime ''IN_PROGRESS'' [] 2000 0 (ts @ now # later) (remote env))
        = Some (Inl (mkError
             ''Text extraction timed out after 5 minutes. Document may be too large.''))"
    using assms(3-5) by (rule pollLoop_timeout)
  then show ?thesis
    by (simp add: processDocument_snd assms(1,2) mkError_def)
qed

text \<open>
  C10. The first poll whose status is not \<open>IN_PROGRESS\<close> ends the loop, once its pages
  are fetched. If that status is \<open>FAILED\<close> the job-failed error is thrown; for any other
  status, \<open>UNKNOWN\<close> (a response without status) and \<open>PARTIAL_SUCCESS\<close> included, the
  assembled text is returned.
\<close>

theorem processDocument_terminal_status:
  assumes "startTextExtraction s3Key env = Inr jobId"
    and "clock env = startTime # ts @ now # later"
    and "in_progress_polls (length ts) [] (remote env) = Some (blocks', Inr response # rest)"
    and "\<forall>t \<in> set ts. t - startTime \<le> timeoutMs"
    and "now - startTime \<le> timeoutMs"
    and "or_default (JobStatus response) ''UNKNOWN'' \<noteq> ''IN_PROGRESS''"
    and "fetchPages (NextToken response) (concat_blocks blocks' (Blocks response)) rest
         = Some (Inr (allBlocks, rest'))"
  shows "snd (processDocument s3Key env)
         = (if or_default (JobStatus response) ''UNKNOWN'' = ''FAILED''
            then Some (Inl (mkError (''Failed to process document: '' @
                   ''Textract job failed. Please check the PDF and try again.'')))
            else Some (Inr (extractTextFromBlocks (Some allBlocks))))"
proof -
  have "getTextExtractionStatus (Inr response)
        = Inr (or_default (JobStatus response) ''UNKNOWN'', Blocks response, NextToken response)"
    by (simp add: getTextExtractionStatus_def)
  with assms(3-7)
  have "snd (pollLoop startTime ''IN_PROGRESS'' [] 2000 0 (ts @ now # later) (remote env))
        = Some (Inr (or_default (JobStatus response) ''UNKNOWN'', allBlocks))"
    by (intro pollLoop_terminal[where blocks' = blocks' and sent = "Inr response" and rest = rest
          and bl = "Blocks response" and tok = "NextToken response" and rest' = rest']) simp_all
  then show ?thesis
    by (simp add: processDocument_snd assms(1,2))
qed

theorem processDocument_timeout_witness:
  "in_progress_polls 2 [] (remote stuck_job_env)
     = Some ([line_block ''Hello'', line_block ''World'', line_block ''again''],
             [poll_response (Some ''IN_PROGRESS'') [] None])
   \<and> snd (processDocument ''temp-pdfs/2-b.pdf'' stuck_job_env)
     = Some (Inl (mkError (''Failed to process document: '' @
          ''Text extraction timed out after 5 minutes. Document may be too large.'')))"
proof -
  have h1: "startTextExtraction ''temp-pdfs/2-b.pdf'' stuck_job_env = Inr ''job-2''"
    by (simp add: stuck_job_env_def textract_defs)
  have h2: "clock stuck_job_env = 1000 # [1005, 3010] @ 301001 # []"
    by (simp add: stuck_job_env_def)
  have h3: "in_progress_polls (length [1005, 3010 :: int]) [] (remote stuck_job_env)
     = Some ([line_block ''Hello'', line_block ''World'', line_block ''again''],
             [poll_response (Some ''IN_PROGRESS'') [] None])"
    by (simp add: stuck_job_env_def textract_defs)
  have h4: "\<forall>t \<in> set [1005, 3010 :: int]. t - 1000 \<le> timeoutMs"
    by (simp add: timeoutMs_def)
  have h5: "301001 - 1000 > timeoutMs"
    by (simp add: timeoutMs_def)
  from processDocument_timeout[OF h1 h2 h3 h4 h5] h3 show ?thesis by (simp add: numeral_2_eq_2)
qed

theorem processDocument_terminal_status_witness:
  "snd (processDocument ''temp-pdfs/3-c.pdf'' unknown_status_env)
     = Some (Inr ''Hello\<newline>World'')
   \<and> snd (processDocument ''temp-pdfs/4-d.pdf'' partial_success_env)
     = Some (Inr ''Hello\<newline>World'')"
proof -
  have a1: "startTextExtraction ''temp-pdfs/3-c.pdf'' unknown_status_env = Inr ''job-3''"
    by (simp add: unknown_status_env_def partial_success_env_def textract_defs word_block_def)
  have a2: "clock unknown_status_env = 0 # [5] @ 2010 # []"
    by (simp add: unknown_status_env_def partial_success_env_def)
  have a3: "in_progress_polls (length [5 :: int]) [] (remote unknown_status_env)
     = Some ([line_block ''Hello''],
             Inr \<lparr>JobStatus = None, Blocks = Some [word_block ''World'', line_block ''World''],
                  NextToken = None\<rparr> # [])"
    by (simp add: unknown_status_env_def partial_success_env_def textract_defs word_block_def)
  have a4: "\<forall>t \<in> set [5 :: int]. t - 0 \<le> timeoutMs" and a5: "2010 - 0 \<le> timeoutMs"
    by (simp_all add: timeoutMs_def)
  have a: "snd (processDocument ''temp-pdfs/3-c.pdf'' unknown_status_env)
     = Some (Inr ''Hello\<newline>World'')"
    using processDocument_terminal_status[OF a1 a2 a3 a4 a5, of "[line_block ''Hello'', word_block ''World'', line_block ''World'']" "[]"]
    by (simp add: textract_defs word_block_def unknown_status_env_def partial_success_env_def extractTextFromBlocks_def join_def)
  have b1: "startTextExtraction ''temp-pdfs/4-d.pdf'' partial_success_env = Inr ''job-4''"
    by (simp add: unknown_status_env_def partial_success_env_def textract_defs word_block_def)
  have b2: "clock partial_success_env = 0 # [] @ 5 # []"
    by (simp add: unknown_status_env_def partial_success_env_def)
  have b3: "in_progress_polls (length ([] :: int list)) [] (remote partial_success_env)
     = Some ([], Inr \<lparr>JobStatus = Some ''PARTIAL_SUCCESS'', Blocks = Some [line_block ''Hello''],
                  NextToken = Some ''page-2''\<rparr> # [poll_response None [line_block ''World''] None])"
    by (simp add: unknown_status_env_def partial_success_env_def textract_defs word_block_def)
  have b4: "\<forall>t \<in> set ([] :: int list). t - 0 \<le> timeoutMs" and b5: "5 - 0 \<le> timeoutMs"
    by (simp_all add: timeoutMs_def)
  have b: "snd (processDocument ''temp-pdfs/4-d.pdf'' partial_success_env)
     = Some (Inr ''Hello\<newline>World'')"
    using processDocument_terminal_status[OF b1 b2 b3 b4 b5, of "[line_block ''Hello'', line_block ''World'']" "[]"]
    by (simp add: textract_defs word_block_def unknown_status_env_def partial_success_env_def extractTextFromBlocks_def join_def)
  from a b show ?thesis by simp
qed

section \<open>The metadata store\<close>

lemmas doc_defs = hello_doc_def pending_doc_def failed_doc_def abc_doc_def

lemma example_store_sound: "regex_search_sound example_store"
  by (simp add: regex_search_sound_def example_store_def fragment_regex_def)

lemma toPDFMetadata_id: "toPDFMetadata doc = doc"
  by (simp add: toPDFMetadata_def)

lemma map_toPDFMetadata: "map toPDFMetadata docs = docs"
  by (induction docs) (simp_all add: toPDFMetadata_id)

lemma findOneAndUpdate_none:
  "\<forall>d \<in> set docs. \<not> flt d \<Longrightarrow> findOneAndUpdate flt upd docs = (docs, None)"
  by (induction docs) simp_all

lemma findOneAndUpdate_first:
  "\<forall>d \<in> set before. \<not> flt d \<Longrightarrow> flt doc \<Longrightarrow>
   findOneAndUpdate flt upd (before @ doc # after) = (before @ upd doc # after, Some (upd doc))"
  by (induction before) simp_all

text \<open>
  C8. While the store can be reached: when no document has the given id,
  \<open>updatePDFMetadata\<close> returns \<open>null\<close> and leaves every document as it was. Otherwise
  the first document with that id takes the value of every field that the update
  supplies and keeps every other field; its \<open>id\<close> stays, also when the update supplies
  one; the other documents stay as they were, and the updated record is returned.
\<close>

theorem updatePDFMetadata_merges:
  assumes "unavailable db = None"
  shows "((\<forall>d \<in> set (documents db). pdf_id d \<noteq> ident) \<longrightarrow>
            fst (updatePDFMetadata ident updates db) = Inr None
            \<and> documents (snd (updatePDFMetadata ident updates db)) = documents db)
       \<and> (documents db = before @ doc # after \<and> pdf_id doc = ident
            \<and> (\<forall>d \<in> set before. pdf_id d \<noteq> ident) \<longrightarrow>
            (\<exists>doc'. fst (updatePDFMetadata ident updates db) = Inr (Some doc')
               \<and> documents (snd (updatePDFMetadata ident updates db)) = before @ doc' # after
               \<and> pdf_id doc' = pdf_id doc
               \<and> filename doc' = (case upd_filename updates of None \<Rightarrow> filename doc | Some v \<Rightarrow> v)
               \<and> extractedText doc'
                   = (case upd_extractedText updates of None \<Rightarrow> extractedText doc | Some v \<Rightarrow> v)
               \<and> uploadedAt doc'
                   = (case upd_uploadedAt updates of None \<Rightarrow> uploadedAt doc | Some v \<Rightarrow> v)
               \<and> textractJobId doc'
                   = (case upd_textractJobId updates of None \<Rightarrow> textractJobId doc | Some v \<Rightarrow> Some v)
               \<and> status doc' = (case upd_status updates of None \<Rightarrow> status doc | Some v \<Rightarrow> v)))"
proof (intro conjI impI)
  assume "\<forall>d \<in> set (documents db). pdf_id d \<noteq> ident"
  then have "findOneAndUpdate (\<lambda>d. pdf_id d = ident) (set_fields (updates\<lparr>upd_id := None\<rparr>))
               (documents db) = (documents db, None)"
    by (intro findOneAndUpdate_none) simp
  then show "fst (updatePDFMetadata ident updates db) = Inr None"
    and "documents (snd (updatePDFMetadata ident updates db)) = documents db"
    using assms by (simp_all add: updatePDFMetadata_def Let_def)
next
  assume h: "documents db = before @ doc # after \<and> pdf_id doc = ident
             \<and> (\<forall>d \<in> set before. pdf_id d \<noteq> ident)"
  let ?doc' = "set_fields (updates\<lparr>upd_id := None\<rparr>) doc"
  have "findOneAndUpdate (\<lambda>d. pdf_id d = ident) (set_fields (updates\<lparr>upd_id := None\<rparr>))
          (before @ doc # after) = (before @ ?doc' # after, Some ?doc')"
    using h by (intro findOneAndUpdate_first) simp_all
  then have "fst (updatePDFMetadata ident updates db) = Inr (Some ?doc')"
    and "documents (snd (updatePDFMetadata ident updates db)) = before @ ?doc' # after"
    using assms h by (simp_all add: updatePDFMetadata_def Let_def toPDFMetadata_id)
  moreover have "pdf_id ?doc' = pdf_id doc"
    and "filename ?doc' = (case upd_filename updates of None \<Rightarrow> filename doc | Some v \<Rightarrow> v)"
    and "extractedText ?doc'
           = (case upd_extractedText updates of None \<Rightarrow> extractedText doc | Some v \<Rightarrow> v)"
    and "uploadedAt ?doc'
           = (case upd_uploadedAt updates of None \<Rightarrow> uploadedAt doc | Some v \<Rightarrow> v)"
    and "textractJobId ?doc'
           = (case upd_textractJobId updates of None \<Rightarrow> textractJobId doc | Some v \<Rightarrow> Some v)"
    and "status ?doc' = (case upd_status updates of None \<Rightarrow> status doc | Some v \<Rightarrow> v)"
    by (simp_all add: set_fields_def)
  ultimately show "\<exists>doc'. fst (updatePDFMetadata ident updates db) = Inr (Some doc')
               \<and> documents (snd (updatePDFMetadata ident updates db)) = before @ doc' # after
               \<and> pdf_id doc' = pdf_id doc
               \<and> filename doc' = (case upd_filename updates of None \<Rightarrow> filename doc | Some v \<Rightarrow> v)
               \<and> extractedText doc'
                   = (case upd_extractedText updates of None \<Rightarrow> extractedText doc | Some v \<Rightarrow> v)
               \<and> uploadedAt doc'
                   = (case upd_uploadedAt updates of None \<Rightarrow> uploadedAt doc | Some v \<Rightarrow> v)
               \<and> textractJobId doc'
                   = (case upd_textractJobId updates of None \<Rightarrow> textractJobId doc | Some v \<Rightarrow> Some v)
               \<and> status doc' = (case upd_status updates of None \<Rightarrow> status doc | Some v \<Rightarrow> v)"
    by blast
qed

lemma searchMetadata_fst:
  "unavailable db = None \<Longrightarrow>
   fst (searchMetadata query db) =
     (if text_hits query db = []
      then (case regexSearch db query of
              Inl error \<Rightarrow>
                Inl (mkError (''Failed to search metadata in MongoDB: '' @ err_message error))
            | Inr matches \<Rightarrow>
                Inr (filter (\<lambda>doc. status doc = Completed \<and> matches (extractedText doc))
                       (documents db)))
      else Inr (text_hits query db))"
  by (simp add: searchMetadata_def text_hits_def Let_def map_toPDFMetadata
        split: sum.splits)

text \<open>
  C3. Every record that \<open>searchMetadata\<close> returns is a stored document whose status is
  \<open>completed\<close>, for every query, every store and every behaviour of the two search
  operators: a document that is \<open>processing\<close> or \<open>failed\<close> is never returned.
\<close>

theorem searchMetadata_only_completed:
  assumes "fst (searchMetadata query db) = Inr results"
  shows "\<forall>r \<in> set results. status r = Completed \<and> r \<in> set (documents db)"
proof (cases "unavailable db")
  case (Some e)
  with assms show ?thesis by (simp add: searchMetadata_def Let_def)
next
  case None
  show ?thesis
  proof (cases "text_hits query db = []")
    case True
    with assms None obtain matches where
      "results = filter (\<lambda>doc. status doc = Completed \<and> matches (extractedText doc)) (documents db)"
      by (auto simp: searchMetadata_fst split: sum.splits)
    then show ?thesis by simp
  next
    case False
    with assms None have "results = text_hits query db"
      by (simp add: searchMetadata_fst)
    then show ?thesis by (auto simp: text_hits_def split: sum.splits)
  qed
qed

lemma matches_here_literal:
  "matches_here (map Literal q) t = prefix (map lower_char q) (map lower_char t)"
proof (induction q arbitrary: t)
  case Nil
  then show ?case by simp
next
  case (Cons c q)
  then show ?case by (cases t) auto
qed

lemma matches_anywhere_literal:
  "matches_anywhere (map Literal q) t = sublist (map lower_char q) (map lower_char t)"
proof (induction t)
  case Nil
  then show ?case by (cases q) simp_all
next
  case (Cons c t)
  then show ?case
    by (simp add: matches_here_literal sublist_Cons_right del: matches_here.simps)
qed

lemma parse_pattern_literal:
  "\<forall>c \<in> set q. c \<notin> regex_metachars \<Longrightarrow> parse_pattern q = Some (map Literal q)"
proof -
  assume a: "\<forall>c \<in> set q. c \<notin> regex_metachars"
  have "CHR ''.'' \<in> regex_metachars" by (simp add: regex_metachars_def)
  with a have "\<forall>c \<in> set q. c \<noteq> CHR ''.''" by blast
  then have "map (\<lambda>c. if c = CHR ''.'' then AnyChar else Literal c) q = map Literal q"
    by (induction q) simp_all
  moreover have "\<not> list_ex (\<lambda>c. c \<in> regex_metachars \<and> c \<noteq> CHR ''.'') q"
    using a by (simp add: list_ex_iff)
  ultimately show ?thesis by (simp add: parse_pattern_def)
qed

text \<open>
  C2, as amended. \<open>searchMetadata\<close> answers with the first tier when that is not empty.
  If and only if the first tier is empty it falls back to the completed documents whose
  \<open>extractedText\<close> matches the query as a case-insensitive regular expression. For a
  query without metacharacters that is the literal, case-insensitive substring match.
\<close>

theorem searchMetadata_two_tier:
  assumes "unavailable db = None" and "regex_search_sound db"
  shows "fst (searchMetadata query db) =
           (if text_hits query db = []
            then (case regexSearch db query of
                    Inl error \<Rightarrow>
                      Inl (mkError (''Failed to search metadata in MongoDB: ''
                             @ err_message error))
                  | Inr matches \<Rightarrow>
                      Inr (filter (\<lambda>doc. status doc = Completed \<and> matches (extractedText doc))
                             (documents db)))
            else Inr (text_hits query db))
         \<and> ((\<forall>c \<in> set query. c \<notin> regex_metachars) \<and> text_hits query db = [] \<longrightarrow>
              fst (searchMetadata query db) =
                Inr (filter (\<lambda>doc. status doc = Completed
                                   \<and> occurs_ignoring_case query (extractedText doc))
                       (documents db)))"
proof (intro conjI impI)
  show "fst (searchMetadata query db) =
           (if text_hits query db = []
            then (case regexSearch db query of
                    Inl error \<Rightarrow>
                      Inl (mkError (''Failed to search metadata in MongoDB: ''
                             @ err_message error))
                  | Inr matches \<Rightarrow>
                      Inr (filter (\<lambda>doc. status doc = Completed \<and> matches (extractedText doc))
                             (documents db)))
            else Inr (text_hits query db))"
    using assms(1) by (rule searchMetadata_fst)
next
  assume h: "(\<forall>c \<in> set query. c \<notin> regex_metachars) \<and> text_hits query db = []"
  then have "parse_pattern query = Some (map Literal query)"
    by (simp add: parse_pattern_literal)
  with assms(2) have "regexSearch db query = Inr (matches_anywhere (map Literal query))"
    by (simp add: regex_search_sound_def)
  then show "fst (searchMetadata query db) =
                Inr (filter (\<lambda>doc. status doc = Completed
                                   \<and> occurs_ignoring_case query (extractedText doc))
                       (documents db))"
    using h assms(1)
    by (simp add: searchMetadata_fst matches_anywhere_literal occurs_ignoring_case_def)
qed

theorem updatePDFMetadata_merges_witness:
  "fst (updatePDFMetadata ''doc-1'' example_update example_store)
     = Inr (Some (hello_doc\<lparr>extractedText := ''X'', status := Completed\<rparr>))
   \<and> documents (snd (updatePDFMetadata ''doc-1'' example_update example_store))
     = [pending_doc, hello_doc\<lparr>extractedText := ''X'', status := Completed\<rparr>, failed_doc, abc_doc]
   \<and> fst (updatePDFMetadata ''doc-7'' example_update example_store) = Inr None
   \<and> documents (snd (updatePDFMetadata ''doc-7'' example_update example_store))
     = documents example_store"
proof -
  have av: "unavailable example_store = None"
    by (simp add: example_store_def)
  have absent: "\<forall>d \<in> set (documents example_store). pdf_id d \<noteq> ''doc-7''"
    by (simp add: example_store_def doc_defs)
  have present: "documents example_store = [pending_doc] @ hello_doc # [failed_doc, abc_doc]
      \<and> pdf_id hello_doc = ''doc-1'' \<and> (\<forall>d \<in> set [pending_doc]. pdf_id d \<noteq> ''doc-1'')"
    by (simp add: example_store_def doc_defs)
  from updatePDFMetadata_merges[OF av, of "''doc-7''" example_update "[]" hello_doc "[]"] absent
  have a: "fst (updatePDFMetadata ''doc-7'' example_update example_store) = Inr None
     \<and> documents (snd (updatePDFMetadata ''doc-7'' example_update example_store))
       = documents example_store"
    by blast
  from updatePDFMetadata_merges[OF av, of "''doc-1''" example_update "[pending_doc]" hello_doc
      "[failed_doc, abc_doc]"] present
  obtain doc' where
    r: "fst (updatePDFMetadata ''doc-1'' example_update example_store) = Inr (Some doc')"
       "documents (snd (updatePDFMetadata ''doc-1'' example_update example_store))
          = [pending_doc] @ doc' # [failed_doc, abc_doc]"
    and f: "pdf_id doc' = pdf_id hello_doc"
       "filename doc' = (case upd_filename example_update of None \<Rightarrow> filename hello_doc | Some v \<Rightarrow> v)"
       "extractedText doc' = (case upd_extractedText example_update of None \<Rightarrow> extractedText hello_doc | Some v \<Rightarrow> v)"
       "uploadedAt doc' = (case upd_uploadedAt example_update of None \<Rightarrow> uploadedAt hello_doc | Some v \<Rightarrow> v)"
       "textractJobId doc' = (case upd_textractJobId example_update of None \<Rightarrow> textractJobId hello_doc | Some v \<Rightarrow> Some v)"
       "status doc' = (case upd_status example_update of None \<Rightarrow> status hello_doc | Some v \<Rightarrow> v)"
    by blast
  from f have "doc' = hello_doc\<lparr>extractedText := ''X'', status := Completed\<rparr>"
    by (simp add: example_update_def)
  with r a show ?thesis by simp
qed

theorem searchMetadata_only_completed_witness:
  "fst (searchMetadata ''world'' example_store) = Inr [hello_doc]
   \<and> status hello_doc = Completed
   \<and> hello_doc \<in> set (documents example_store)
   \<and> status pending_doc = Processing
   \<and> occurs_ignoring_case ''world'' (extractedText pending_doc)
   \<and> status failed_doc = Failed
   \<and> occurs_ignoring_case ''world'' (extractedText failed_doc)"
proof -
  have eq: "fst (searchMetadata ''world'' example_store) = Inr [hello_doc]"
    by (simp add: searchMetadata_def Let_def example_store_def token_search_def doc_defs
          lower_char_def toPDFMetadata_def)
  have others: "status pending_doc = Processing
      \<and> occurs_ignoring_case ''world'' (extractedText pending_doc)
      \<and> status failed_doc = Failed
      \<and> occurs_ignoring_case ''world'' (extractedText failed_doc)"
    by (simp add: doc_defs occurs_ignoring_case_def lower_char_def sublist_Cons_right)
  from searchMetadata_only_completed[OF eq] eq others show ?thesis by simp
qed

theorem searchMetadata_two_tier_witness:
  "text_hits ''wor'' example_store = []
   \<and> fst (searchMetadata ''wor'' example_store) = Inr [hello_doc]
   \<and> text_hits ''world'' example_store = [hello_doc]
   \<and> fst (searchMetadata ''world'' example_store) = Inr [hello_doc]"
proof -
  have av: "unavailable example_store = None"
    by (simp add: example_store_def)
  have th: "text_hits ''wor'' example_store = []"
    by (simp add: text_hits_def example_store_def token_search_def doc_defs lower_char_def)
  have th2: "text_hits ''world'' example_store = [hello_doc]"
    by (simp add: text_hits_def example_store_def token_search_def doc_defs lower_char_def)
  have plain: "\<forall>c \<in> set ''wor''. c \<notin> regex_metachars"
    by (simp add: regex_metachars_def)
  have flt: "filter (\<lambda>doc. status doc = Completed \<and> occurs_ignoring_case ''wor'' (extractedText doc))
               (documents example_store) = [hello_doc]"
    by (simp add: example_store_def doc_defs occurs_ignoring_case_def lower_char_def
          sublist_Cons_right)
  from searchMetadata_two_tier[OF av example_store_sound, of "''wor''"] th plain
  have "fst (searchMetadata ''wor'' example_store)
        = Inr (filter (\<lambda>doc. status doc = Completed
                            \<and> occurs_ignoring_case ''wor'' (extractedText doc))
                 (documents example_store))"
    by blast
  then have a: "fst (searchMetadata ''wor'' example_store) = Inr [hello_doc]"
    by (simp only: flt)
  from searchMetadata_two_tier[OF av example_store_sound, of "''world''"]
  have "fst (searchMetadata ''world'' example_store)
        = (if text_hits ''world'' example_store = []
            then (case regexSearch example_store ''world'' of
                    Inl error \<Rightarrow>
                      Inl (mkError (''Failed to search metadata in MongoDB: ''
                             @ err_message error))
                  | Inr matches \<Rightarrow>
                      Inr (filter (\<lambda>doc. status doc = Completed \<and> matches (extractedText doc))
                             (documents example_store)))
            else Inr (text_hits ''world'' example_store))"
    by (rule conjunct1)
  then have b: "fst (searchMetadata ''world'' example_store) = Inr [hello_doc]"
    by (simp only: th2) simp
  from a b th th2 show ?thesis by simp
qed

text \<open>
  C2 as stated fails: the query \<open>a.c\<close> is a pattern, and the fallback returns the
  completed document whose text is \<open>abc\<close>, in which \<open>a.c\<close> does not occur.
\<close>

theorem searchMetadata_fallback_counterexample:
  "text_hits ''a.c'' example_store = []
   \<and> fst (searchMetadata ''a.c'' example_store) = Inr [abc_doc]
   \<and> status abc_doc = Completed
   \<and> \<not> occurs_ignoring_case ''a.c'' (extractedText abc_doc)"
  by (simp add: text_hits_def searchMetadata_def Let_def example_store_def token_search_def
        fragment_regex_def parse_pattern_def regex_metachars_def doc_defs
        occurs_ignoring_case_def lower_char_def sublist_Cons_right toPDFMetadata_def)

section \<open>The search handler\<close>

lemma indexOf_from_absent: "\<not> sublist s t \<Longrightarrow> indexOf_from t s k = - 1"
  by (induction t arbitrary: k) (auto simp: sublist_Cons_right)

lemma indexOf_from_first:
  "i \<le> length t \<Longrightarrow> prefix s (drop i t) \<Longrightarrow> \<forall>j<i. \<not> prefix s (drop j t)
   \<Longrightarrow> indexOf_from t s k = k + int i"
proof (induction t arbitrary: i k)
  case Nil
  then show ?case by simp
next
  case (Cons c cs)
  show ?case
  proof (cases i)
    case 0
    with Cons.prems show ?thesis by simp
  next
    case (Suc i')
    with Cons.prems have "\<not> prefix s (drop 0 (c # cs))" by blast
    moreover have "i' \<le> length cs" and "prefix s (drop i' cs)"
      using Cons.prems Suc by simp_all
    moreover have "\<forall>j<i'. \<not> prefix s (drop j cs)"
    proof (intro allI impI)
      fix j assume "j < i'"
      then have "Suc j < i" using Suc by simp
      with Cons.prems(3) have "\<not> prefix s (drop (Suc j) (c # cs))" by blast
      then show "\<not> prefix s (drop j cs)" by simp
    qed
    ultimately have "indexOf_from cs s (k + 1) = (k + 1) + int i'"
      using Cons.IH by blast
    with \<open>\<not> prefix s (drop 0 (c # cs))\<close> Suc show ?thesis by simp
  qed
qed

lemma indexOf_first: "occurs_first_at s t i \<Longrightarrow> indexOf t s = int i"
  using indexOf_from_first[of i t s 0] by (simp add: indexOf_def occurs_first_at_def)

lemma indexOf_absent: "\<not> sublist s t \<Longrightarrow> indexOf t s = - 1"
  by (simp add: indexOf_def indexOf_from_absent)

lemma sublist_occurs_first_at:
  assumes "sublist s t"
  shows "\<exists>i. occurs_first_at s t i"
proof -
  from assms obtain ps ss where t: "t = ps @ s @ ss" by (auto simp: sublist_def)
  let ?P = "\<lambda>i. i \<le> length t \<and> prefix s (drop i t)"
  have "?P (length ps)" using t by simp
  then have "?P (LEAST i. ?P i)" and "\<forall>j < (LEAST i. ?P i). \<not> ?P j"
    using LeastI[of ?P "length ps"] not_less_Least[of _ ?P] by blast+
  then show ?thesis
    unfolding occurs_first_at_def
    by (intro exI[of _ "LEAST i. ?P i"]) (metis (lifting) less_imp_le_nat order.trans)
qed

lemma substring_take_drop:
  "0 \<le> a \<Longrightarrow> a \<le> b \<Longrightarrow> b \<le> int (length s)
   \<Longrightarrow> substring s a b = take (nat (b - a)) (drop (nat a) s)"
  by (simp add: substring_def Let_def min_def max_def)

text \<open>
  What the handler computes: the position \<open>i\<close> is that of the first occurrence of the
  lower-cased query in the lower-cased text, and the window of 50 characters on each side
  is cut at that position out of the text itself.
\<close>

lemma matchPreview_lowered_index:
  "(occurs_first_at (toLowerCase rt query) (toLowerCase rt text) i \<longrightarrow>
      matchPreview rt text query
        = substring text (max 0 (int i - 50))
            (min (int (length text)) (int i + int (length query) + 50)))
   \<and> (\<not> sublist (toLowerCase rt query) (toLowerCase rt text) \<longrightarrow>
      matchPreview rt text query = [])"
proof (intro conjI impI)
  assume "occurs_first_at (toLowerCase rt query) (toLowerCase rt text) i"
  then have "indexOf (toLowerCase rt text) (toLowerCase rt query) = int i"
    by (rule indexOf_first)
  then show "matchPreview rt text query
        = substring text (max 0 (int i - 50))
            (min (int (length text)) (int i + int (length query) + 50))"
    by (simp add: matchPreview_def Let_def)
next
  assume "\<not> sublist (toLowerCase rt query) (toLowerCase rt text)"
  then have "indexOf (toLowerCase rt text) (toLowerCase rt query) = - 1"
    by (rule indexOf_absent)
  then show "matchPreview rt text query = []"
    by (simp add: matchPreview_def Let_def)
qed

lemma occurs_first_at_Cons:
  "occurs_first_at s (c # cs) i
     = (if i = 0 then prefix s (c # cs)
        else \<not> prefix s (c # cs) \<and> occurs_first_at s cs (i - 1))"
proof (cases i)
  case 0
  then show ?thesis by (simp add: occurs_first_at_def)
next
  case (Suc i')
  have "(\<forall>j<Suc i'. \<not> prefix s (drop j (c # cs)))
        = (\<not> prefix s (c # cs) \<and> (\<forall>j<i'. \<not> prefix s (drop j cs)))"
    by (auto simp: less_Suc_eq_0_disj)
  with Suc show ?thesis by (auto simp: occurs_first_at_def)
qed

lemma matchPreview_ascii_examples:
  "matchPreview ascii_runtime report_text ''WOR''
     = '' office copier on the second floor at noon. Hello World example page, followed by the remaining lines o''
   \<and> matchPreview ascii_runtime ''...Hello World example...'' ''wor''
     = ''...Hello World example...''
   \<and> matchPreview ascii_runtime ''Hello World'' ''xyz'' = []"
proof -
  have lq: "toLowerCase ascii_runtime ''WOR'' = ''wor''"
    and lq': "toLowerCase ascii_runtime ''wor'' = ''wor''"
    and lx: "toLowerCase ascii_runtime ''xyz'' = ''xyz''"
    by (simp_all add: ascii_runtime_def lower_char_def)
  have lt: "toLowerCase ascii_runtime report_text
      = ''scanned by the office copier on the second floor at noon. hello world example page, followed by the remaining lines of the report.''"
    by (simp add: ascii_runtime_def report_text_def lower_char_def)
  have ls: "toLowerCase ascii_runtime ''...Hello World example...'' = ''...hello world example...''"
    and lh: "toLowerCase ascii_runtime ''Hello World'' = ''hello world''"
    by (simp_all add: ascii_runtime_def lower_char_def)
  have a: "occurs_first_at (toLowerCase ascii_runtime ''WOR'')
             (toLowerCase ascii_runtime report_text) 64"
    unfolding lq lt by (simp add: occurs_first_at_Cons)
  have b: "occurs_first_at (toLowerCase ascii_runtime ''wor'')
             (toLowerCase ascii_runtime ''...Hello World example...'') 9"
    unfolding lq' ls by (simp add: occurs_first_at_Cons)
  have c: "\<not> sublist (toLowerCase ascii_runtime ''xyz'') (toLowerCase ascii_runtime ''Hello World'')"
    unfolding lx lh by (simp add: sublist_Cons_right)
  have sa: "substring report_text (max 0 (int 64 - 50))
              (min (int (length report_text)) (int 64 + int (length ''WOR'') + 50))
     = '' office copier on the second floor at noon. Hello World example page, followed by the remaining lines o''"
    by (simp add: substring_def report_text_def Let_def)
  have sb: "substring ''...Hello World example...'' (max 0 (int 9 - 50))
              (min (int (length ''...Hello World example...'')) (int 9 + int (length ''wor'') + 50))
     = ''...Hello World example...''"
    by (simp add: substring_def Let_def)
  from matchPreview_lowered_index[of ascii_runtime "''WOR''" report_text 64] a
  have "matchPreview ascii_runtime report_text ''WOR''
        = substring report_text (max 0 (int 64 - 50))
              (min (int (length report_text)) (int 64 + int (length ''WOR'') + 50))"
    by blast
  moreover from matchPreview_lowered_index[of ascii_runtime "''wor''" "''...Hello World example...''" 9] b
  have "matchPreview ascii_runtime ''...Hello World example...'' ''wor''
        = substring ''...Hello World example...'' (max 0 (int 9 - 50))
              (min (int (length ''...Hello World example...'')) (int 9 + int (length ''wor'') + 50))"
    by blast
  moreover from matchPreview_lowered_index[of ascii_runtime "''xyz''" "''Hello World''" 0] c
  have "matchPreview ascii_runtime ''Hello World'' ''xyz'' = []"
    by blast
  ultimately show ?thesis by (simp only: sa sb)
qed

text \<open>
  Where lower-casing works character by character, positions in the lower-cased text are
  positions in the text, and the preview is the window around the first occurrence of the
  query, ignoring case.
\<close>

lemma matchPreview_charwise:
  assumes "toLowerCase rt = map f"
    and "occurs_first_at (map f query) (map f text) i"
  shows "matchPreview rt text query
         = take (nat (min (int (length text)) (int i + int (length query) + 50)
                      - max 0 (int i - 50)))
             (drop (nat (max 0 (int i - 50))) text)"
proof -
  from assms(2) have i: "i \<le> length text"
    by (simp add: occurs_first_at_def)
  have "matchPreview rt text query
        = substring text (max 0 (int i - 50))
            (min (int (length text)) (int i + int (length query) + 50))"
    using matchPreview_lowered_index[where rt = rt and query = query and i = i] assms by simp
  also have "\<dots> = take (nat (min (int (length text)) (int i + int (length query) + 50)
                      - max 0 (int i - 50)))
             (drop (nat (max 0 (int i - 50))) text)"
    using i by (intro substring_take_drop) simp_all
  finally show ?thesis .
qed

text \<open>
  C7 fails on the code. The handler looks for the query in the lower-cased text and uses
  the position it finds there as a position in \<open>extractedText\<close>. Lower-casing can make a
  text longer: behind sixty characters that each become two, the query \<open>hello\<close>
  stands at position 60 of the text and at position 120 of the lower-cased text. The
  window that the handler cuts starts behind the end of the text, so the preview is empty
  although the query occurs; the window around the occurrence is the text from
  position 10 on.
\<close>

theorem matchPreview_length_changing:
  "occurs_first_at ''hello'' dotted_text 60
   \<and> toLowerCase expanding_runtime ''hello'' = ''hello''
   \<and> indexOf (toLowerCase expanding_runtime dotted_text)
         (toLowerCase expanding_runtime ''hello'') = 120
   \<and> substring dotted_text (max 0 (60 - 50))
         (min (int (length dotted_text)) (60 + int (length ''hello'') + 50))
       = drop 10 dotted_text
   \<and> drop 10 dotted_text \<noteq> []
   \<and> matchPreview expanding_runtime dotted_text ''hello'' = []"
proof -
  have lq: "toLowerCase expanding_runtime ''hello'' = ''hello''"
    by (simp add: expanding_runtime_def lower_char_def capital_I_dot_def)
  have len: "length dotted_text = 65"
    by (simp add: dotted_text_def ten_dotted_def)
  have at: "occurs_first_at ''hello'' dotted_text 60"
    by (simp add: dotted_text_def ten_dotted_def capital_I_dot_def occurs_first_at_Cons)
  have low: "occurs_first_at ''hello'' (toLowerCase expanding_runtime dotted_text) 120"
    by (simp add: expanding_runtime_def dotted_text_def ten_dotted_def capital_I_dot_def
          combining_dot_def lower_char_def occurs_first_at_Cons)
  then have idx: "indexOf (toLowerCase expanding_runtime dotted_text)
                    (toLowerCase expanding_runtime ''hello'') = 120"
    using indexOf_first[of "''hello''" "toLowerCase expanding_runtime dotted_text" 120]
    by (simp only: lq)
  have claimed: "substring dotted_text (max 0 (60 - 50))
         (min (int (length dotted_text)) (60 + int (length ''hello'') + 50))
       = drop 10 dotted_text"
    by (simp add: substring_def Let_def len)
  have nonempty: "drop 10 dotted_text \<noteq> []"
    by (simp add: len)
  have "matchPreview expanding_runtime dotted_text ''hello''
        = substring dotted_text (max 0 (120 - 50))
            (min (int (length dotted_text)) (120 + int (length ''hello'') + 50))"
    by (simp add: matchPreview_def Let_def idx)
  also have "\<dots> = []"
    by (simp add: substring_def Let_def len)
  finally have "matchPreview expanding_runtime dotted_text ''hello'' = []" .
  with at lq idx claimed nonempty show ?thesis by blast
qed

theorem matchPreview_length_changing_witness:
  "sublist ''hello'' dotted_text
   \<and> matchPreview expanding_runtime dotted_text ''hello'' = []"
proof -
  from matchPreview_length_changing
  have "prefix ''hello'' (drop 60 dotted_text)"
    and e: "matchPreview expanding_runtime dotted_text ''hello'' = []"
    by (simp_all add: occurs_first_at_def)
  then have "sublist ''hello'' (drop 60 dotted_text)"
    by (intro prefix_imp_sublist)
  moreover have "sublist (drop 60 dotted_text) dotted_text"
    by (rule sublist_drop)
  ultimately have "sublist ''hello'' dotted_text"
    by (rule sublist_order.order.trans)
  with e show ?thesis by simp
qed

lemma length_trim_le: "length (trim s) \<le> length s"
proof -
  have "length (trim s) \<le> length (dropWhile is_space s)"
    using length_dropWhile_le[of is_space "rev (dropWhile is_space s)"]
    by (simp add: trim_def)
  also have "\<dots> \<le> length s" by (rule length_dropWhile_le)
  finally show ?thesis .
qed

text \<open>
  C9. A query of fewer than two characters, the empty one included, and an absent query
  are answered with status 400 and the store is left as it was: no operation of the store
  was invoked. (An invocation of \<open>searchMetadata\<close> always shows in the record of calls.)
\<close>

theorem GET_rejects_short_query:
  "(length query < 2 \<longrightarrow>
      GET rt (Some query) db = (Json 400 (ErrorBody ''Query must be at least 2 characters''), db))
   \<and> GET rt None db = (Json 400 (ErrorBody ''Query must be at least 2 characters''), db)
   \<and> calls (snd (searchMetadata query db)) = calls db @ [SearchMetadataCall query]"
proof (intro conjI impI)
  assume "length query < 2"
  then have "length (trim query) < 2"
    using length_trim_le[of query] by simp
  then show "GET rt (Some query) db
             = (Json 400 (ErrorBody ''Query must be at least 2 characters''), db)"
    by (simp add: GET_def)
next
  show "GET rt None db = (Json 400 (ErrorBody ''Query must be at least 2 characters''), db)"
    by (simp add: GET_def)
next
  show "calls (snd (searchMetadata query db)) = calls db @ [SearchMetadataCall query]"
    by (simp add: searchMetadata_def Let_def split: option.splits sum.splits)
qed

theorem GET_rejects_short_query_witness:
  "GET ascii_runtime (Some ''a'') example_store
     = (Json 400 (ErrorBody ''Query must be at least 2 characters''), example_store)
   \<and> GET ascii_runtime (Some []) example_store
     = (Json 400 (ErrorBody ''Query must be at least 2 characters''), example_store)
   \<and> calls (snd (GET ascii_runtime (Some ''wor'') example_store)) = [SearchMetadataCall ''wor'']"
proof -
  have short: "length ''a'' < 2" and empty: "length ([] :: string) < 2"
    by simp_all
  have "trim ''wor'' = ''wor''"
    by (simp add: trim_def is_space_def)
  then have "snd (GET ascii_runtime (Some ''wor'') example_store)
             = snd (searchMetadata ''wor'' example_store)"
    by (simp add: GET_def Let_def split: prod.splits sum.splits)
  moreover have "calls example_store = []"
    by (simp add: example_store_def)
  ultimately have "calls (snd (GET ascii_runtime (Some ''wor'') example_store))
                   = [SearchMetadataCall ''wor'']"
    using GET_rejects_short_query[of "''wor''" ascii_runtime example_store] by simp
  with GET_rejects_short_query[of "''a''" ascii_runtime example_store]
    GET_rejects_short_query[of "[]" ascii_runtime example_store] short empty
  show ?thesis by blast
qed

section \<open>The process handler\<close>

lemma POST_catch_body_used:
  "bodyUsed req \<Longrightarrow> json_body req = Some parsed \<Longrightarrow>
   POST_catch error req db deleted
     = (Rejected (JsError ''TypeError'' ''Body is unusable: Body has already been read''),
        db, deleted)"
  by (simp add: POST_catch_def request_json_def)

lemma POST_catch_without_body:
  "json_body req = None \<Longrightarrow>
   POST_catch error req db deleted
     = (Rejected (JsError ''SyntaxError'' ''Unexpected end of JSON input''), db, deleted)"
  by (simp add: POST_catch_def request_json_def)

lemma POST_catch_body_unread:
  "\<not> bodyUsed req \<Longrightarrow> json_body req = Some (Inr b) \<Longrightarrow>
   fst (POST_catch error req db deleted) = Returned (Json 500 (ErrorBody (err_message error)))"
  by (simp add: POST_catch_def request_json_def Let_def)

lemma POST_extraction_throws:
  "\<not> bodyUsed req \<Longrightarrow> json_body req = Some (Inr b) \<Longrightarrow> truthy (body_id b) \<Longrightarrow>
   truthy (body_s3Key b) \<Longrightarrow>
   POST req (Inl error) db
     = (Rejected (JsError ''TypeError'' ''Body is unusable: Body has already been read''),
        db, [])"
  by (simp add: POST_def request_json_def POST_catch_body_used)

text \<open>
  C1 fails on the code. On a request for the document \<open>doc-2\<close> whose extraction throws,
  the \<open>catch\<close> block reads the request body a second time; that read throws, so the
  handler ends with this \<open>TypeError\<close> instead of the extraction error, and the store is
  never asked to mark the document as failed.
\<close>

theorem POST_extraction_failure:
  "POST failing_request (Inl extraction_failure) example_store
     = (Rejected (JsError ''TypeError'' ''Body is unusable: Body has already been read''),
        example_store, [])"
  by (rule POST_extraction_throws[where b = "\<lparr>body_id = Some ''doc-2'',
        body_s3Key = Some ''temp-pdfs/2-draft.pdf''\<rparr>"])
     (simp_all add: failing_request_def truthy_def)

theorem POST_extraction_failure_witness:
  "fst (POST failing_request (Inl extraction_failure) example_store)
     = Rejected (JsError ''TypeError'' ''Body is unusable: Body has already been read'')
   \<and> documents (fst (snd (POST failing_request (Inl extraction_failure) example_store)))
     = [pending_doc, hello_doc, failed_doc, abc_doc]
   \<and> pdf_id pending_doc = ''doc-2''
   \<and> status pending_doc = Processing"
  using POST_extraction_failure
  by (simp add: example_store_def pending_doc_def)

end
